theory Spec2Isabelle
  imports Main
begin

section \<open>Settings facade of MediaHelp: \<open>backend/api/sysSetting.py\<close>\<close>

text \<open>
  The module holds six request handlers over one process-wide configuration, a Python
  \<open>Dict[str, Any]\<close> kept by \<open>config_manager\<close>. Every handler is modelled as a
  function of the stored configuration that returns its response payload together with
  the configuration after the call. A handler that can raise returns a sum, \<open>Inl\<close>
  the exception: the only write of each handler is its last statement before
  \<open>return\<close>, so an exception leaves the stored configuration as it was.
\<close>

subsection \<open>Values\<close>

text \<open>
  The values a configuration can hold (it is loaded from and saved to a file): null,
  booleans, integers, strings, lists and nested dictionaries. A dictionary is a partial
  map from keys to values.
\<close>

datatype json =
    JNull
  | JBool bool
  | JNum int
  | JStr string
  | JList "json list"
  | JObj "string \<rightharpoonup> json"

type_synonym config = "string \<rightharpoonup> json"

datatype error = KeyError | TypeError | ValidationError

text \<open>\<open>d.get(k, default)\<close> on a dictionary.\<close>

definition dict_get :: "config \<Rightarrow> string \<Rightarrow> json \<Rightarrow> json" where
  "dict_get d k dflt = (case d k of None \<Rightarrow> dflt | Some v \<Rightarrow> v)"

text \<open>
  \<open>x[k]\<close> with a string key \<open>k\<close>: a dictionary without the key raises
  \<open>KeyError\<close>; on every other value (None, a boolean, a number, a string, a list)
  subscripting with a string raises \<open>TypeError\<close>.
\<close>

definition getitem :: "json \<Rightarrow> string \<Rightarrow> error + json" where
  "getitem x k =
     (case x of
        JObj d \<Rightarrow> (case d k of None \<Rightarrow> Inl KeyError | Some v \<Rightarrow> Inr v)
      | _ \<Rightarrow> Inl TypeError)"

text \<open>
  \<open>x[k] = v\<close> with a string key: a dictionary gets the key set (the result is the
  dictionary after the assignment); every other value raises \<open>TypeError\<close>.
\<close>

definition setitem :: "json \<Rightarrow> string \<Rightarrow> json \<Rightarrow> error + json" where
  "setitem x k v =
     (case x of
        JObj d \<Rightarrow> Inr (JObj (d(k \<mapsto> v)))
      | _ \<Rightarrow> Inl TypeError)"

subsection \<open>The configuration store\<close>

text \<open>
  Modelled from the spec: \<open>config_manager\<close> (\<open>utils/config_manager.py\<close>) is not among
  the sources. The spec gives the store two operations: \<open>get()\<close> returns the full
  snapshot mapping, and \<open>update(partial)\<close> performs a shallow top-level merge of the
  partial mapping into the snapshot, keys of the update overwriting the same keys of the
  base and keys absent from the update being preserved. The state passed through the
  handlers is the stored mapping itself.
\<close>

definition get_config :: "config \<Rightarrow> config" where
  "get_config st = st"

definition update_config :: "config \<Rightarrow> config \<Rightarrow> config" where
  "update_config new_config st = st ++ new_config"

subsection \<open>Request and response models\<close>

text \<open>
  Modelled from the spec: the schemas of \<open>schemas/sysSetting.py\<close> are not among the
  sources. \<open>SysSettingUpdate\<close> has twelve optional fields, eleven strings and the
  boolean \<open>use_proxy\<close>; \<open>None\<close> is a field that is null or unset. \<open>ProxyConfig\<close> has
  the five proxy fields, all required. A \<open>TGChannel\<close> has the two strings \<open>id\<close> and
  \<open>name\<close> (the field \<open>id\<close> is written \<open>id'\<close> here). Request bodies are validated against
  these schemas before a handler runs, so a handler only sees values of these types.
\<close>

record SysSettingUpdate =
  emby_url :: "string option"
  emby_api_key :: "string option"
  alist_url :: "string option"
  alist_api_key :: "string option"
  tianyiAccount :: "string option"
  tianyiPassword :: "string option"
  quarkCookie :: "string option"
  use_proxy :: "bool option"
  proxy_host :: "string option"
  proxy_port :: "string option"
  proxy_username :: "string option"
  proxy_password :: "string option"

record ProxyConfig =
  use_proxy :: bool
  proxy_host :: string
  proxy_port :: string
  proxy_username :: string
  proxy_password :: string

record TGChannel =
  id' :: string
  name :: string

text \<open>
  Modelled from the spec: building a \<open>ProxyConfig\<close> from values read out of the
  untyped store. A boolean is taken for \<open>use_proxy\<close> and a string for each of the
  other fields as they are. A value of another type is rejected: a null, a list or a
  dictionary is no value of a required boolean or string field, so the constructor
  raises on it. Whether the schema library would instead coerce a number or a string
  that spells a boolean is outside the sources; no statement below rests on the model's
  answer for such a value.
\<close>

definition as_bool :: "json \<Rightarrow> error + bool" where
  "as_bool v = (case v of JBool b \<Rightarrow> Inr b | _ \<Rightarrow> Inl ValidationError)"

definition as_str :: "json \<Rightarrow> error + string" where
  "as_str v = (case v of JStr s \<Rightarrow> Inr s | _ \<Rightarrow> Inl ValidationError)"

text \<open>\<open>channel.dict()\<close>: the plain dictionary of a channel.\<close>

definition channel_dict :: "TGChannel \<Rightarrow> json" where
  "channel_dict channel =
     JObj [''id'' \<mapsto> JStr (id' channel), ''name'' \<mapsto> JStr (name channel)]"

text \<open>A \<open>Dict[str, str]\<close> as a stored value.\<close>

definition patterns_dict :: "(string \<rightharpoonup> string) \<Rightarrow> json" where
  "patterns_dict patterns = JObj (\<lambda>k. map_option JStr (patterns k))"

subsection \<open>\<open>get_system_config\<close> and \<open>update_system_config\<close>\<close>

definition get_system_config :: "config \<Rightarrow> config \<times> config" where
  "get_system_config st = (let config = get_config st in (config, st))"

text \<open>
  One statement of the staging code, \<open>if value is not None: new_config[key] = value\<close>.
\<close>

definition put_present :: "string \<Rightarrow> json option \<Rightarrow> config \<Rightarrow> config" where
  "put_present key v new_config =
     (case v of None \<Rightarrow> new_config | Some x \<Rightarrow> new_config(key \<mapsto> x))"

text \<open>The staging mapping \<open>new_config\<close>, built by the twelve tests in source order.\<close>

definition system_new_config :: "SysSettingUpdate \<Rightarrow> config" where
  "system_new_config config =
     (let n = Map.empty;
          n = put_present ''emby_url'' (map_option JStr (emby_url config)) n;
          n = put_present ''emby_api_key'' (map_option JStr (emby_api_key config)) n;
          n = put_present ''alist_url'' (map_option JStr (alist_url config)) n;
          n = put_present ''alist_api_key'' (map_option JStr (alist_api_key config)) n;
          n = put_present ''tianyiAccount'' (map_option JStr (tianyiAccount config)) n;
          n = put_present ''tianyiPassword'' (map_option JStr (tianyiPassword config)) n;
          n = put_present ''quarkCookie'' (map_option JStr (quarkCookie config)) n;
          n = put_present ''use_proxy''
                (map_option JBool (SysSettingUpdate.use_proxy config)) n;
          n = put_present ''proxy_host''
                (map_option JStr (SysSettingUpdate.proxy_host config)) n;
          n = put_present ''proxy_port''
                (map_option JStr (SysSettingUpdate.proxy_port config)) n;
          n = put_present ''proxy_username''
                (map_option JStr (SysSettingUpdate.proxy_username config)) n;
          n = put_present ''proxy_password''
                (map_option JStr (SysSettingUpdate.proxy_password config)) n
      in n)"

definition update_system_config :: "SysSettingUpdate \<Rightarrow> config \<Rightarrow> config \<times> config" where
  "update_system_config config st =
     (let new_config = system_new_config config;
          st' = update_config new_config st;
          updated_config = get_config st'
      in (updated_config, st'))"

subsection \<open>\<open>get_proxy_config\<close> and \<open>update_proxy_config\<close>\<close>

definition get_proxy_config :: "config \<Rightarrow> error + ProxyConfig \<times> config" where
  "get_proxy_config st =
     (let config = get_config st in
      case as_bool (dict_get config ''use_proxy'' (JBool False)) of
        Inl e \<Rightarrow> Inl e
      | Inr up \<Rightarrow>
      (case as_str (dict_get config ''proxy_host'' (JStr '''')) of
        Inl e \<Rightarrow> Inl e
      | Inr host \<Rightarrow>
      (case as_str (dict_get config ''proxy_port'' (JStr '''')) of
        Inl e \<Rightarrow> Inl e
      | Inr port \<Rightarrow>
      (case as_str (dict_get config ''proxy_username'' (JStr '''')) of
        Inl e \<Rightarrow> Inl e
      | Inr username \<Rightarrow>
      (case as_str (dict_get config ''proxy_password'' (JStr '''')) of
        Inl e \<Rightarrow> Inl e
      | Inr password \<Rightarrow>
          Inr (\<lparr>use_proxy = up, proxy_host = host, proxy_port = port,
                 proxy_username = username, proxy_password = password\<rparr>, st))))))"

text \<open>The dictionary literal \<open>new_config\<close> of \<open>update_proxy_config\<close>.\<close>

definition proxy_new_config :: "ProxyConfig \<Rightarrow> config" where
  "proxy_new_config config =
     [''use_proxy'' \<mapsto> JBool (use_proxy config),
      ''proxy_host'' \<mapsto> JStr (proxy_host config),
      ''proxy_port'' \<mapsto> JStr (proxy_port config),
      ''proxy_username'' \<mapsto> JStr (proxy_username config),
      ''proxy_password'' \<mapsto> JStr (proxy_password config)]"

definition update_proxy_config :: "ProxyConfig \<Rightarrow> config \<Rightarrow> ProxyConfig \<times> config" where
  "update_proxy_config config st =
     (let new_config = proxy_new_config config;
          st' = update_config new_config st
      in (config, st'))"

subsection \<open>\<open>get_tg_resource_config\<close> and \<open>update_tg_resource_config\<close>\<close>

definition get_tg_resource_config :: "config \<Rightarrow> json \<times> config" where
  "get_tg_resource_config st =
     (let config = get_config st
      in (dict_get config ''tg_resource'' (JObj Map.empty), st))"

text \<open>
  \<open>tg_config["telegram"]["channels"] = [channel.dict() for channel in channels]\<close>:
  the inner dictionary is read out of \<open>tg_config\<close> and assigned to in place, so the
  assignment shows in \<open>tg_config\<close>; the result is \<open>tg_config\<close> after the statement.
\<close>

definition set_channels :: "json \<Rightarrow> TGChannel list \<Rightarrow> error + json" where
  "set_channels tg_config channels =
     (case getitem tg_config ''telegram'' of
        Inl e \<Rightarrow> Inl e
      | Inr telegram \<Rightarrow>
          (case setitem telegram ''channels'' (JList (map channel_dict channels)) of
             Inl e \<Rightarrow> Inl e
           | Inr telegram' \<Rightarrow> setitem tg_config ''telegram'' telegram'))"

text \<open>
  The handler returns a fixed message and no data, so its result is the configuration
  after the call. The two mutations are applied to \<open>tg_config\<close> in source order,
  channels first; the write of \<open>{"tg_resource": tg_config}\<close> is reached only when neither
  raised. A statement that raises has assigned nothing, and the patterns statement
  cannot raise once the channels statement has assigned (then \<open>tg_config\<close> is a
  dictionary). So whether \<open>get_config\<close> hands out the stored dictionary itself or a
  copy of it, a call that raises leaves the store as it was, and a call that returns
  leaves \<open>tg_resource\<close> holding the mutated \<open>tg_config\<close>.
\<close>

definition update_tg_resource_config ::
  "TGChannel list option \<Rightarrow> (string \<rightharpoonup> string) option \<Rightarrow> config \<Rightarrow> error + config" where
  "update_tg_resource_config channels patterns st =
     (let config = get_config st;
          tg_config = dict_get config ''tg_resource'' (JObj Map.empty)
      in case (case channels of
                 None \<Rightarrow> Inr tg_config
               | Some chs \<Rightarrow> set_channels tg_config chs) of
           Inl e \<Rightarrow> Inl e
         | Inr tg_config1 \<Rightarrow>
             (case (case patterns of
                      None \<Rightarrow> Inr tg_config1
                    | Some ps \<Rightarrow> setitem tg_config1 ''cloudPatterns'' (patterns_dict ps)) of
                Inl e \<Rightarrow> Inl e
              | Inr tg_config2 \<Rightarrow>
                  Inr (update_config [''tg_resource'' \<mapsto> tg_config2] st)))"

section \<open>Names used in the statements\<close>

subsection \<open>Keys and shapes of the stored configuration\<close>

text \<open>The twelve keys that \<open>update_system_config\<close> can write.\<close>

definition SysSettingUpdate_keys :: "string set" where
  "SysSettingUpdate_keys =
     {''emby_url'', ''emby_api_key'', ''alist_url'', ''alist_api_key'', ''tianyiAccount'',
      ''tianyiPassword'', ''quarkCookie'', ''use_proxy'', ''proxy_host'', ''proxy_port'',
      ''proxy_username'', ''proxy_password''}"

text \<open>
  The data model gives the five proxy keys their types: \<open>use_proxy\<close> holds a boolean
  and the other four hold strings. \<open>proxy_fields_typed\<close> says that each of the five keys
  that is present in the store holds a value of its type; an absent key is allowed.
\<close>

fun is_bool :: "json \<Rightarrow> bool" where
  "is_bool (JBool b) = True"
| "is_bool v = False"

fun is_str :: "json \<Rightarrow> bool" where
  "is_str (JStr s) = True"
| "is_str v = False"

definition proxy_fields_typed :: "config \<Rightarrow> bool" where
  "proxy_fields_typed C =
     ((case C ''use_proxy'' of None \<Rightarrow> True | Some v \<Rightarrow> is_bool v)
      \<and> (case C ''proxy_host'' of None \<Rightarrow> True | Some v \<Rightarrow> is_str v)
      \<and> (case C ''proxy_port'' of None \<Rightarrow> True | Some v \<Rightarrow> is_str v)
      \<and> (case C ''proxy_username'' of None \<Rightarrow> True | Some v \<Rightarrow> is_str v)
      \<and> (case C ''proxy_password'' of None \<Rightarrow> True | Some v \<Rightarrow> is_str v))"

text \<open>
  The stored configuration after a handler call that can raise: the handler's result
  when it returns, the configuration before the call when it raises.
\<close>

definition store_after :: "config \<Rightarrow> error + config \<Rightarrow> config" where
  "store_after st r = (case r of Inl e \<Rightarrow> st | Inr st' \<Rightarrow> st')"

text \<open>
  \<open>tg_section C k\<close> is the value stored at \<open>tg_resource.k\<close>, if \<open>tg_resource\<close> is a
  dictionary that has the key \<open>k\<close>. \<open>telegram_object C\<close> is the dictionary stored at
  \<open>tg_resource.telegram\<close>, if there is one: it is \<open>None\<close> when \<open>tg_resource\<close> is
  absent, when it has no key \<open>telegram\<close>, and when one of the two holds a value that is
  not a dictionary.
\<close>

definition tg_section :: "config \<Rightarrow> string \<Rightarrow> json option" where
  "tg_section C k = (case C ''tg_resource'' of Some (JObj tg) \<Rightarrow> tg k | _ \<Rightarrow> None)"

definition telegram_object :: "config \<Rightarrow> (string \<rightharpoonup> json) option" where
  "telegram_object C =
     (case tg_section C ''telegram'' of Some (JObj telegram) \<Rightarrow> Some telegram | _ \<Rightarrow> None)"

text \<open>
  \<open>telegram_missing C\<close> says that the key \<open>telegram\<close> is missing where the handler
  looks it up: \<open>tg_resource\<close> is absent, or is a dictionary without the key. It is
  false when \<open>tg_resource\<close> holds a value that is not a dictionary.

  The data model makes \<open>tg_resource\<close> an object with the sub-objects \<open>telegram\<close> and
  \<open>cloudPatterns\<close>. \<open>tg_resource_is_dict\<close> says that \<open>tg_resource\<close> is absent or a
  dictionary; \<open>tg_resource_typed\<close> says in addition that \<open>tg_resource.telegram\<close> is
  absent or a dictionary.
\<close>

definition telegram_missing :: "config \<Rightarrow> bool" where
  "telegram_missing C =
     (case C ''tg_resource'' of
        None \<Rightarrow> True
      | Some (JObj tg) \<Rightarrow> tg ''telegram'' = None
      | Some _ \<Rightarrow> False)"

definition tg_resource_is_dict :: "config \<Rightarrow> bool" where
  "tg_resource_is_dict C =
     (case C ''tg_resource'' of None \<Rightarrow> True | Some (JObj tg) \<Rightarrow> True | Some _ \<Rightarrow> False)"

definition tg_resource_typed :: "config \<Rightarrow> bool" where
  "tg_resource_typed C =
     (tg_resource_is_dict C \<and>
      (case tg_section C ''telegram'' of
         None \<Rightarrow> True | Some (JObj telegram) \<Rightarrow> True | Some _ \<Rightarrow> False))"

text \<open>
  \<open>tg_config\<close> after the statement
  \<open>if patterns is not None: tg_config["cloudPatterns"] = patterns\<close>, for a
  \<open>tg_config\<close> that is a dictionary.
\<close>

definition with_patterns :: "(string \<rightharpoonup> string) option \<Rightarrow> config \<Rightarrow> config" where
  "with_patterns patterns tg =
     (case patterns of None \<Rightarrow> tg | Some ps \<Rightarrow> tg(''cloudPatterns'' \<mapsto> patterns_dict ps))"

subsection \<open>Example inputs\<close>

text \<open>
  A stored configuration and a partial update to run the handlers on: the store holds
  \<open>emby_url\<close> and \<open>alist_url\<close>, the update submits \<open>emby_url\<close> and \<open>use_proxy\<close>
  and omits the other ten fields.
\<close>

definition example_store :: config where
  "example_store = [''emby_url'' \<mapsto> JStr ''a'', ''alist_url'' \<mapsto> JStr ''b'']"

definition example_update :: SysSettingUpdate where
  "example_update =
     \<lparr>emby_url = Some ''c'', emby_api_key = None, alist_url = None, alist_api_key = None,
      tianyiAccount = None, tianyiPassword = None, quarkCookie = None,
      SysSettingUpdate.use_proxy = Some False, SysSettingUpdate.proxy_host = None,
      SysSettingUpdate.proxy_port = None, SysSettingUpdate.proxy_username = None,
      SysSettingUpdate.proxy_password = None\<rparr>"

text \<open>
  A store with two of the five proxy keys set, and a proxy configuration that agrees
  with it on these two.
\<close>

definition example_proxy_store :: config where
  "example_proxy_store =
     [''emby_url'' \<mapsto> JStr ''a'', ''use_proxy'' \<mapsto> JBool True,
      ''proxy_host'' \<mapsto> JStr ''10.0.0.1'']"

definition example_proxy :: ProxyConfig where
  "example_proxy =
     \<lparr>use_proxy = True, proxy_host = ''10.0.0.1'', proxy_port = '''',
      proxy_username = '''', proxy_password = ''''\<rparr>"

text \<open>
  A store whose \<open>tg_resource\<close> has one channel and two patterns, a store whose
  \<open>tg_resource\<close> has no \<open>telegram\<close>, a channel list and a pattern mapping.
\<close>

definition example_tg_store :: config where
  "example_tg_store =
     [''emby_url'' \<mapsto> JStr ''a'',
      ''tg_resource'' \<mapsto>
        JObj [''telegram'' \<mapsto>
                JObj [''baseUrl'' \<mapsto> JStr ''https://t.me/s'',
                      ''channels'' \<mapsto>
                        JList [JObj [''id'' \<mapsto> JStr ''x'', ''name'' \<mapsto> JStr ''X'']]],
              ''cloudPatterns'' \<mapsto> JObj [''a'' \<mapsto> JStr ''x'', ''b'' \<mapsto> JStr ''y'']]]"

definition example_tg_no_telegram :: config where
  "example_tg_no_telegram =
     [''tg_resource'' \<mapsto> JObj [''cloudPatterns'' \<mapsto> JObj [''a'' \<mapsto> JStr ''x'']]]"

text \<open>
  Two stores that hold a null where the data model has an object or a string: one with
  \<open>tg_resource.telegram\<close> null, one with \<open>proxy_host\<close> null.
\<close>

definition example_tg_null_telegram :: config where
  "example_tg_null_telegram = [''tg_resource'' \<mapsto> JObj [''telegram'' \<mapsto> JNull]]"

definition example_null_proxy_store :: config where
  "example_null_proxy_store = [''use_proxy'' \<mapsto> JBool True, ''proxy_host'' \<mapsto> JNull]"

definition example_channels :: "TGChannel list" where
  "example_channels = [\<lparr>id' = ''y'', name = ''Y''\<rparr>]"

definition example_patterns :: "string \<rightharpoonup> string" where
  "example_patterns = [''c'' \<mapsto> ''z'']"

section \<open>Properties\<close>

subsection \<open>Lookups in the staging mapping and in the merged store\<close>

lemma put_present_apply:
  "put_present key v m k = (if k = key \<and> v \<noteq> None then v else m k)"
  by (cases v) (simp_all add: put_present_def)

lemma update_config_apply:
  "update_config new_config st k = (case new_config k of None \<Rightarrow> st k | Some v \<Rightarrow> Some v)"
  by (simp add: update_config_def map_add_def)

lemma system_new_config_fields:
  "system_new_config P ''emby_url'' = map_option JStr (emby_url P)"
  "system_new_config P ''emby_api_key'' = map_option JStr (emby_api_key P)"
  "system_new_config P ''alist_url'' = map_option JStr (alist_url P)"
  "system_new_config P ''alist_api_key'' = map_option JStr (alist_api_key P)"
  "system_new_config P ''tianyiAccount'' = map_option JStr (tianyiAccount P)"
  "system_new_config P ''tianyiPassword'' = map_option JStr (tianyiPassword P)"
  "system_new_config P ''quarkCookie'' = map_option JStr (quarkCookie P)"
  "system_new_config P ''use_proxy'' = map_option JBool (SysSettingUpdate.use_proxy P)"
  "system_new_config P ''proxy_host'' = map_option JStr (SysSettingUpdate.proxy_host P)"
  "system_new_config P ''proxy_port'' = map_option JStr (SysSettingUpdate.proxy_port P)"
  "system_new_config P ''proxy_username'' = map_option JStr (SysSettingUpdate.proxy_username P)"
  "system_new_config P ''proxy_password'' = map_option JStr (SysSettingUpdate.proxy_password P)"
  by (simp_all add: system_new_config_def put_present_apply)

lemma system_new_config_other:
  "k \<notin> SysSettingUpdate_keys \<Longrightarrow> system_new_config P k = None"
  by (simp add: system_new_config_def put_present_apply SysSettingUpdate_keys_def)

lemma update_system_config_store:
  "snd (update_system_config P C) k =
     (case system_new_config P k of None \<Rightarrow> C k | Some v \<Rightarrow> Some v)"
  by (simp add: update_system_config_def Let_def update_config_apply)

subsection \<open>\<open>update_system_config\<close>: partial update\<close>

text \<open>
  Claim C1. \<open>update_system_config\<close> has partial-update semantics. For each of the
  twelve recognized fields, a value present in the update \<open>P\<close> is the value stored
  under the field's key after the call, and a field that is absent (\<open>None\<close>) in \<open>P\<close>
  leaves its key as it was in the stored configuration \<open>C\<close>, so omitting a field never
  clears it. Every other key of \<open>C\<close> is unchanged too. The response is the store after
  the write, and a following \<open>get_system_config\<close> returns that same mapping.
\<close>

theorem update_system_config_patch:
  "(let C' = snd (update_system_config P C) in
     (case emby_url P of
        Some v \<Rightarrow> C' ''emby_url'' = Some (JStr v) | None \<Rightarrow> C' ''emby_url'' = C ''emby_url'')
   \<and> (case emby_api_key P of
        Some v \<Rightarrow> C' ''emby_api_key'' = Some (JStr v)
      | None \<Rightarrow> C' ''emby_api_key'' = C ''emby_api_key'')
   \<and> (case alist_url P of
        Some v \<Rightarrow> C' ''alist_url'' = Some (JStr v) | None \<Rightarrow> C' ''alist_url'' = C ''alist_url'')
   \<and> (case alist_api_key P of
        Some v \<Rightarrow> C' ''alist_api_key'' = Some (JStr v)
      | None \<Rightarrow> C' ''alist_api_key'' = C ''alist_api_key'')
   \<and> (case tianyiAccount P of
        Some v \<Rightarrow> C' ''tianyiAccount'' = Some (JStr v)
      | None \<Rightarrow> C' ''tianyiAccount'' = C ''tianyiAccount'')
   \<and> (case tianyiPassword P of
        Some v \<Rightarrow> C' ''tianyiPassword'' = Some (JStr v)
      | None \<Rightarrow> C' ''tianyiPassword'' = C ''tianyiPassword'')
   \<and> (case quarkCookie P of
        Some v \<Rightarrow> C' ''quarkCookie'' = Some (JStr v)
      | None \<Rightarrow> C' ''quarkCookie'' = C ''quarkCookie'')
   \<and> (case SysSettingUpdate.use_proxy P of
        Some v \<Rightarrow> C' ''use_proxy'' = Some (JBool v)
      | None \<Rightarrow> C' ''use_proxy'' = C ''use_proxy'')
   \<and> (case SysSettingUpdate.proxy_host P of
        Some v \<Rightarrow> C' ''proxy_host'' = Some (JStr v)
      | None \<Rightarrow> C' ''proxy_host'' = C ''proxy_host'')
   \<and> (case SysSettingUpdate.proxy_port P of
        Some v \<Rightarrow> C' ''proxy_port'' = Some (JStr v)
      | None \<Rightarrow> C' ''proxy_port'' = C ''proxy_port'')
   \<and> (case SysSettingUpdate.proxy_username P of
        Some v \<Rightarrow> C' ''proxy_username'' = Some (JStr v)
      | None \<Rightarrow> C' ''proxy_username'' = C ''proxy_username'')
   \<and> (case SysSettingUpdate.proxy_password P of
        Some v \<Rightarrow> C' ''proxy_password'' = Some (JStr v)
      | None \<Rightarrow> C' ''proxy_password'' = C ''proxy_password'')
   \<and> (\<forall>k. k \<notin> SysSettingUpdate_keys \<longrightarrow> C' k = C k)
   \<and> fst (update_system_config P C) = C'
   \<and> get_system_config C' = (C', C'))"
proof -
  let ?C' = "snd (update_system_config P C)"
  have f1: "case emby_url P of
      Some v \<Rightarrow> ?C' ''emby_url'' = Some (JStr v) | None \<Rightarrow> ?C' ''emby_url'' = C ''emby_url''"
    by (simp add: update_system_config_store system_new_config_fields split: option.split)
  have f2: "case emby_api_key P of
      Some v \<Rightarrow> ?C' ''emby_api_key'' = Some (JStr v) | None \<Rightarrow> ?C' ''emby_api_key'' = C ''emby_api_key''"
    by (simp add: update_system_config_store system_new_config_fields split: option.split)
  have f3: "case alist_url P of
      Some v \<Rightarrow> ?C' ''alist_url'' = Some (JStr v) | None \<Rightarrow> ?C' ''alist_url'' = C ''alist_url''"
    by (simp add: update_system_config_store system_new_config_fields split: option.split)
  have f4: "case alist_api_key P of
      Some v \<Rightarrow> ?C' ''alist_api_key'' = Some (JStr v) | None \<Rightarrow> ?C' ''alist_api_key'' = C ''alist_api_key''"
    by (simp add: update_system_config_store system_new_config_fields split: option.split)
  have f5: "case tianyiAccount P of
      Some v \<Rightarrow> ?C' ''tianyiAccount'' = Some (JStr v) | None \<Rightarrow> ?C' ''tianyiAccount'' = C ''tianyiAccount''"
    by (simp add: update_system_config_store system_new_config_fields split: option.split)
  have f6: "case tianyiPassword P of
      Some v \<Rightarrow> ?C' ''tianyiPassword'' = Some (JStr v) | None \<Rightarrow> ?C' ''tianyiPassword'' = C ''tianyiPassword''"
    by (simp add: update_system_config_store system_new_config_fields split: option.split)
  have f7: "case quarkCookie P of
      Some v \<Rightarrow> ?C' ''quarkCookie'' = Some (JStr v) | None \<Rightarrow> ?C' ''quarkCookie'' = C ''quarkCookie''"
    by (simp add: update_system_config_store system_new_config_fields split: option.split)
  have f8: "case SysSettingUpdate.use_proxy P of
      Some v \<Rightarrow> ?C' ''use_proxy'' = Some (JBool v) | None \<Rightarrow> ?C' ''use_proxy'' = C ''use_proxy''"
    by (simp add: update_system_config_store system_new_config_fields split: option.split)
  have f9: "case SysSettingUpdate.proxy_host P of
      Some v \<Rightarrow> ?C' ''proxy_host'' = Some (JStr v) | None \<Rightarrow> ?C' ''proxy_host'' = C ''proxy_host''"
    by (simp add: update_system_config_store system_new_config_fields split: option.split)
  have f10: "case SysSettingUpdate.proxy_port P of
      Some v \<Rightarrow> ?C' ''proxy_port'' = Some (JStr v) | None \<Rightarrow> ?C' ''proxy_port'' = C ''proxy_port''"
    by (simp add: update_system_config_store system_new_config_fields split: option.split)
  have f11: "case SysSettingUpdate.proxy_username P of
      Some v \<Rightarrow> ?C' ''proxy_username'' = Some (JStr v) | None \<Rightarrow> ?C' ''proxy_username'' = C ''proxy_username''"
    by (simp add: update_system_config_store system_new_config_fields split: option.split)
  have f12: "case SysSettingUpdate.proxy_password P of
      Some v \<Rightarrow> ?C' ''proxy_password'' = Some (JStr v) | None \<Rightarrow> ?C' ''proxy_password'' = C ''proxy_password''"
    by (simp add: update_system_config_store system_new_config_fields split: option.split)
  have other: "\<forall>k. k \<notin> SysSettingUpdate_keys \<longrightarrow> ?C' k = C k"
    by (simp add: update_system_config_store system_new_config_other)
  have resp: "fst (update_system_config P C) = ?C'"
    by (simp add: update_system_config_def Let_def get_config_def)
  have reread: "get_system_config ?C' = (?C', ?C')"
    by (simp add: get_system_config_def get_config_def)
  show ?thesis
    unfolding Let_def
    by (intro conjI f1 f2 f3 f4 f5 f6 f7 f8 f9 f10 f11 f12 other resp reread)
qed

theorem update_system_config_patch_witness:
  "snd (update_system_config example_update example_store) ''emby_url'' = Some (JStr ''c'')
   \<and> snd (update_system_config example_update example_store) ''alist_url'' = Some (JStr ''b'')
   \<and> snd (update_system_config example_update example_store) ''use_proxy'' = Some (JBool False)
   \<and> snd (update_system_config example_update example_store) ''proxy_host'' = None
   \<and> ''tg_resource'' \<notin> SysSettingUpdate_keys
   \<and> snd (update_system_config example_update example_store) ''tg_resource''
       = example_store ''tg_resource''
   \<and> fst (get_system_config (snd (update_system_config example_update example_store)))
         ''emby_url'' = Some (JStr ''c'')"
proof -
  have k: "''tg_resource'' \<notin> SysSettingUpdate_keys"
    by (simp add: SysSettingUpdate_keys_def)
  from update_system_config_patch [of example_update example_store] k
  show ?thesis
    by (simp add: Let_def example_update_def example_store_def)
qed

subsection \<open>\<open>get_system_config\<close>: the snapshot as it is\<close>

text \<open>
  Claim C9. \<open>get_system_config\<close> returns the whole stored configuration, every key
  with its stored value and nothing filtered, and leaves the store as it was; calling it
  again on the store it leaves returns the same result.
\<close>

theorem get_system_config_verbatim:
  "get_system_config C = (C, C)
   \<and> get_system_config (snd (get_system_config C)) = get_system_config C"
  by (simp add: get_system_config_def get_config_def)

subsection \<open>\<open>get_proxy_config\<close>: the five-field projection\<close>

lemma as_bool_dict_get:
  assumes "case C k of None \<Rightarrow> True | Some v \<Rightarrow> is_bool v"
  shows "\<exists>b. as_bool (dict_get C k (JBool d)) = Inr b
             \<and> (case C k of None \<Rightarrow> b = d | Some v \<Rightarrow> v = JBool b)"
proof (cases "C k")
  case None
  then show ?thesis by (simp add: dict_get_def as_bool_def)
next
  case (Some v)
  with assms obtain b where "v = JBool b" by (cases v) simp_all
  with Some show ?thesis by (simp add: dict_get_def as_bool_def)
qed

lemma as_str_dict_get:
  assumes "case C k of None \<Rightarrow> True | Some v \<Rightarrow> is_str v"
  shows "\<exists>s. as_str (dict_get C k (JStr d)) = Inr s
             \<and> (case C k of None \<Rightarrow> s = d | Some v \<Rightarrow> v = JStr s)"
proof (cases "C k")
  case None
  then show ?thesis by (simp add: dict_get_def as_str_def)
next
  case (Some v)
  with assms obtain s where "v = JStr s" by (cases v) simp_all
  with Some show ?thesis by (simp add: dict_get_def as_str_def)
qed

lemma get_proxy_config_Inr:
  assumes "as_bool (dict_get C ''use_proxy'' (JBool False)) = Inr up"
    and "as_str (dict_get C ''proxy_host'' (JStr '''')) = Inr host"
    and "as_str (dict_get C ''proxy_port'' (JStr '''')) = Inr port"
    and "as_str (dict_get C ''proxy_username'' (JStr '''')) = Inr username"
    and "as_str (dict_get C ''proxy_password'' (JStr '''')) = Inr password"
  shows "get_proxy_config C =
     Inr (\<lparr>use_proxy = up, proxy_host = host, proxy_port = port,
            proxy_username = username, proxy_password = password\<rparr>, C)"
  using assms by (simp add: get_proxy_config_def get_config_def)

text \<open>
  Claim C5, amended. On a stored configuration whose proxy keys, where present, hold
  values of their types (a boolean for \<open>use_proxy\<close>, a string for the other four),
  \<open>get_proxy_config\<close> returns a \<open>ProxyConfig\<close>, which has exactly the five proxy
  fields, and leaves the store as it was. Each field is the stored value when its key is
  present; an absent \<open>use_proxy\<close> gives \<open>False\<close> and an absent string field gives the
  empty string. On a store with none of the five keys the result is the all-default
  object, whatever else the store holds.
\<close>

theorem get_proxy_config_projection:
  "(proxy_fields_typed C \<longrightarrow>
      (\<exists>p. get_proxy_config C = Inr (p, C)
         \<and> (case C ''use_proxy'' of
               None \<Rightarrow> use_proxy p = False | Some v \<Rightarrow> v = JBool (use_proxy p))
         \<and> (case C ''proxy_host'' of
               None \<Rightarrow> proxy_host p = '''' | Some v \<Rightarrow> v = JStr (proxy_host p))
         \<and> (case C ''proxy_port'' of
               None \<Rightarrow> proxy_port p = '''' | Some v \<Rightarrow> v = JStr (proxy_port p))
         \<and> (case C ''proxy_username'' of
               None \<Rightarrow> proxy_username p = '''' | Some v \<Rightarrow> v = JStr (proxy_username p))
         \<and> (case C ''proxy_password'' of
               None \<Rightarrow> proxy_password p = '''' | Some v \<Rightarrow> v = JStr (proxy_password p))))
   \<and> (C ''use_proxy'' = None \<and> C ''proxy_host'' = None \<and> C ''proxy_port'' = None
        \<and> C ''proxy_username'' = None \<and> C ''proxy_password'' = None \<longrightarrow>
      get_proxy_config C =
        Inr (\<lparr>use_proxy = False, proxy_host = '''', proxy_port = '''',
               proxy_username = '''', proxy_password = ''''\<rparr>, C))"
proof (intro conjI impI)
  assume typed: "proxy_fields_typed C"
  from typed obtain up where up:
    "as_bool (dict_get C ''use_proxy'' (JBool False)) = Inr up"
    "case C ''use_proxy'' of None \<Rightarrow> up = False | Some v \<Rightarrow> v = JBool up"
    using as_bool_dict_get [of C "''use_proxy''" False]
    by (auto simp add: proxy_fields_typed_def)
  from typed obtain host where host:
    "as_str (dict_get C ''proxy_host'' (JStr '''')) = Inr host"
    "case C ''proxy_host'' of None \<Rightarrow> host = '''' | Some v \<Rightarrow> v = JStr host"
    using as_str_dict_get [of C "''proxy_host''" "''''"]
    by (auto simp add: proxy_fields_typed_def)
  from typed obtain port where port:
    "as_str (dict_get C ''proxy_port'' (JStr '''')) = Inr port"
    "case C ''proxy_port'' of None \<Rightarrow> port = '''' | Some v \<Rightarrow> v = JStr port"
    using as_str_dict_get [of C "''proxy_port''" "''''"]
    by (auto simp add: proxy_fields_typed_def)
  from typed obtain username where username:
    "as_str (dict_get C ''proxy_username'' (JStr '''')) = Inr username"
    "case C ''proxy_username'' of None \<Rightarrow> username = '''' | Some v \<Rightarrow> v = JStr username"
    using as_str_dict_get [of C "''proxy_username''" "''''"]
    by (auto simp add: proxy_fields_typed_def)
  from typed obtain password where password:
    "as_str (dict_get C ''proxy_password'' (JStr '''')) = Inr password"
    "case C ''proxy_password'' of None \<Rightarrow> password = '''' | Some v \<Rightarrow> v = JStr password"
    using as_str_dict_get [of C "''proxy_password''" "''''"]
    by (auto simp add: proxy_fields_typed_def)
  let ?p = "\<lparr>use_proxy = up, proxy_host = host, proxy_port = port,
              proxy_username = username, proxy_password = password\<rparr>"
  have "get_proxy_config C = Inr (?p, C)"
    by (rule get_proxy_config_Inr) (fact up(1) host(1) port(1) username(1) password(1))+
  moreover have "case C ''use_proxy'' of
      None \<Rightarrow> use_proxy ?p = False | Some v \<Rightarrow> v = JBool (use_proxy ?p)"
    using up(2) by (simp split: option.splits)
  moreover have "case C ''proxy_host'' of
      None \<Rightarrow> proxy_host ?p = '''' | Some v \<Rightarrow> v = JStr (proxy_host ?p)"
    using host(2) by (simp split: option.splits)
  moreover have "case C ''proxy_port'' of
      None \<Rightarrow> proxy_port ?p = '''' | Some v \<Rightarrow> v = JStr (proxy_port ?p)"
    using port(2) by (simp split: option.splits)
  moreover have "case C ''proxy_username'' of
      None \<Rightarrow> proxy_username ?p = '''' | Some v \<Rightarrow> v = JStr (proxy_username ?p)"
    using username(2) by (simp split: option.splits)
  moreover have "case C ''proxy_password'' of
      None \<Rightarrow> proxy_password ?p = '''' | Some v \<Rightarrow> v = JStr (proxy_password ?p)"
    using password(2) by (simp split: option.splits)
  ultimately show "\<exists>p. get_proxy_config C = Inr (p, C)
         \<and> (case C ''use_proxy'' of
               None \<Rightarrow> use_proxy p = False | Some v \<Rightarrow> v = JBool (use_proxy p))
         \<and> (case C ''proxy_host'' of
               None \<Rightarrow> proxy_host p = '''' | Some v \<Rightarrow> v = JStr (proxy_host p))
         \<and> (case C ''proxy_port'' of
               None \<Rightarrow> proxy_port p = '''' | Some v \<Rightarrow> v = JStr (proxy_port p))
         \<and> (case C ''proxy_username'' of
               None \<Rightarrow> proxy_username p = '''' | Some v \<Rightarrow> v = JStr (proxy_username p))
         \<and> (case C ''proxy_password'' of
               None \<Rightarrow> proxy_password p = '''' | Some v \<Rightarrow> v = JStr (proxy_password p))"
    by blast
next
  assume absent: "C ''use_proxy'' = None \<and> C ''proxy_host'' = None \<and> C ''proxy_port'' = None
        \<and> C ''proxy_username'' = None \<and> C ''proxy_password'' = None"
  show "get_proxy_config C =
        Inr (\<lparr>use_proxy = False, proxy_host = '''', proxy_port = '''',
               proxy_username = '''', proxy_password = ''''\<rparr>, C)"
    by (rule get_proxy_config_Inr) (simp_all add: absent dict_get_def as_bool_def as_str_def)
qed

theorem get_proxy_config_projection_witness:
  "proxy_fields_typed example_proxy_store
   \<and> get_proxy_config example_proxy_store =
       Inr (\<lparr>use_proxy = True, proxy_host = ''10.0.0.1'', proxy_port = '''',
              proxy_username = '''', proxy_password = ''''\<rparr>, example_proxy_store)
   \<and> get_proxy_config Map.empty =
       Inr (\<lparr>use_proxy = False, proxy_host = '''', proxy_port = '''',
              proxy_username = '''', proxy_password = ''''\<rparr>, Map.empty)"
proof -
  have typed: "proxy_fields_typed example_proxy_store"
    by (simp add: proxy_fields_typed_def example_proxy_store_def)
  from get_proxy_config_projection [of example_proxy_store] typed
  obtain p where p: "get_proxy_config example_proxy_store = Inr (p, example_proxy_store)"
    "JBool True = JBool (use_proxy p)" "JStr ''10.0.0.1'' = JStr (proxy_host p)"
    "proxy_port p = ''''" "proxy_username p = ''''" "proxy_password p = ''''"
    by (auto simp add: example_proxy_store_def)
  then have "p = \<lparr>use_proxy = True, proxy_host = ''10.0.0.1'', proxy_port = '''',
              proxy_username = '''', proxy_password = ''''\<rparr>"
    by simp
  with p(1) typed get_proxy_config_projection [of Map.empty]
  show ?thesis by simp
qed

text \<open>
  The claim as it was stated, for every stored configuration, fails on a store whose
  \<open>proxy_host\<close> is null: the key is present, so the default does not apply, and the
  stored value is no string, so the handler raises instead of returning a projection.
\<close>

theorem get_proxy_config_projection_counterexample:
  "example_null_proxy_store ''proxy_host'' = Some JNull
   \<and> get_proxy_config example_null_proxy_store = Inl ValidationError"
  by (simp add: example_null_proxy_store_def get_proxy_config_def get_config_def
      dict_get_def as_bool_def as_str_def)

subsection \<open>\<open>update_proxy_config\<close>: all five fields written, input echoed\<close>

lemma proxy_new_config_lookups:
  "proxy_new_config P ''use_proxy'' = Some (JBool (use_proxy P))"
  "proxy_new_config P ''proxy_host'' = Some (JStr (proxy_host P))"
  "proxy_new_config P ''proxy_port'' = Some (JStr (proxy_port P))"
  "proxy_new_config P ''proxy_username'' = Some (JStr (proxy_username P))"
  "proxy_new_config P ''proxy_password'' = Some (JStr (proxy_password P))"
  by (simp_all add: proxy_new_config_def)

text \<open>
  Claim C4. \<open>update_proxy_config\<close> answers with the submitted object, whatever the
  store holds. The mapping it writes has exactly the five proxy keys, so the store after
  the call is the store before it with all five keys set to the submitted values, also
  where a stored value was already equal. A \<open>get_proxy_config\<close> on the store after the
  call returns exactly the submitted object.
\<close>

theorem update_proxy_config_full_write:
  "fst (update_proxy_config P C) = P
   \<and> snd (update_proxy_config P C) =
       C(''use_proxy'' \<mapsto> JBool (use_proxy P),
         ''proxy_host'' \<mapsto> JStr (proxy_host P),
         ''proxy_port'' \<mapsto> JStr (proxy_port P),
         ''proxy_username'' \<mapsto> JStr (proxy_username P),
         ''proxy_password'' \<mapsto> JStr (proxy_password P))
   \<and> dom (proxy_new_config P) =
       {''use_proxy'', ''proxy_host'', ''proxy_port'', ''proxy_username'', ''proxy_password''}
   \<and> get_proxy_config (snd (update_proxy_config P C)) = Inr (P, snd (update_proxy_config P C))"
proof -
  let ?C' = "snd (update_proxy_config P C)"
  have echo: "fst (update_proxy_config P C) = P"
    by (simp add: update_proxy_config_def Let_def)
  have store: "?C' =
       C(''use_proxy'' \<mapsto> JBool (use_proxy P),
         ''proxy_host'' \<mapsto> JStr (proxy_host P),
         ''proxy_port'' \<mapsto> JStr (proxy_port P),
         ''proxy_username'' \<mapsto> JStr (proxy_username P),
         ''proxy_password'' \<mapsto> JStr (proxy_password P))"
    by (simp add: update_proxy_config_def Let_def update_config_def proxy_new_config_def)
  have keys: "dom (proxy_new_config P) =
       {''use_proxy'', ''proxy_host'', ''proxy_port'', ''proxy_username'', ''proxy_password''}"
    by (auto simp add: proxy_new_config_def)
  have look: "?C' k = (case proxy_new_config P k of None \<Rightarrow> C k | Some v \<Rightarrow> Some v)" for k
    by (simp add: update_proxy_config_def Let_def update_config_apply)
  have "get_proxy_config ?C' =
      Inr (\<lparr>use_proxy = use_proxy P, proxy_host = proxy_host P, proxy_port = proxy_port P,
             proxy_username = proxy_username P, proxy_password = proxy_password P\<rparr>, ?C')"
    by (rule get_proxy_config_Inr)
      (simp_all add: dict_get_def look proxy_new_config_lookups as_bool_def as_str_def)
  then have reread: "get_proxy_config ?C' = Inr (P, ?C')"
    by simp
  from echo store keys reread show ?thesis
    by (intro conjI)
qed

theorem update_proxy_config_full_write_witness:
  "fst (update_proxy_config example_proxy example_proxy_store) = example_proxy
   \<and> snd (update_proxy_config example_proxy example_proxy_store) ''use_proxy''
       = example_proxy_store ''use_proxy''
   \<and> snd (update_proxy_config example_proxy example_proxy_store) ''proxy_port''
       = Some (JStr '''')
   \<and> example_proxy_store ''proxy_port'' = None
   \<and> get_proxy_config (snd (update_proxy_config example_proxy example_proxy_store))
       = Inr (example_proxy, snd (update_proxy_config example_proxy example_proxy_store))"
proof -
  note w = update_proxy_config_full_write [of example_proxy example_proxy_store]
  from w have echo: "fst (update_proxy_config example_proxy example_proxy_store) = example_proxy"
    by (rule conjunct1)
  from w have store: "snd (update_proxy_config example_proxy example_proxy_store) =
       example_proxy_store(''use_proxy'' \<mapsto> JBool (use_proxy example_proxy),
         ''proxy_host'' \<mapsto> JStr (proxy_host example_proxy),
         ''proxy_port'' \<mapsto> JStr (proxy_port example_proxy),
         ''proxy_username'' \<mapsto> JStr (proxy_username example_proxy),
         ''proxy_password'' \<mapsto> JStr (proxy_password example_proxy))"
    by (rule conjunct1 [OF conjunct2])
  from w have reread:
    "get_proxy_config (snd (update_proxy_config example_proxy example_proxy_store))
       = Inr (example_proxy, snd (update_proxy_config example_proxy example_proxy_store))"
    by (rule conjunct2 [OF conjunct2 [OF conjunct2]])
  have up: "snd (update_proxy_config example_proxy example_proxy_store) ''use_proxy''
       = example_proxy_store ''use_proxy''"
    unfolding store by (simp add: example_proxy_def example_proxy_store_def)
  have port: "snd (update_proxy_config example_proxy example_proxy_store) ''proxy_port''
       = Some (JStr '''')"
    unfolding store by (simp add: example_proxy_def)
  have before: "example_proxy_store ''proxy_port'' = None"
    by (simp add: example_proxy_store_def)
  from echo up port before reread show ?thesis
    by (intro conjI)
qed

subsection \<open>\<open>get_tg_resource_config\<close>\<close>

text \<open>
  Claim C8. \<open>get_tg_resource_config\<close> returns the value stored under \<open>tg_resource\<close>,
  returns the empty dictionary when the key is absent, and leaves the store as it was.
\<close>

theorem get_tg_resource_config_value:
  "(\<forall>v. C ''tg_resource'' = Some v \<longrightarrow> fst (get_tg_resource_config C) = v)
   \<and> (C ''tg_resource'' = None \<longrightarrow> fst (get_tg_resource_config C) = JObj Map.empty)
   \<and> snd (get_tg_resource_config C) = C"
  by (simp add: get_tg_resource_config_def get_config_def dict_get_def)

theorem get_tg_resource_config_value_witness:
  "fst (get_tg_resource_config example_tg_store) =
     JObj [''telegram'' \<mapsto>
             JObj [''baseUrl'' \<mapsto> JStr ''https://t.me/s'',
                   ''channels'' \<mapsto>
                     JList [JObj [''id'' \<mapsto> JStr ''x'', ''name'' \<mapsto> JStr ''X'']]],
           ''cloudPatterns'' \<mapsto> JObj [''a'' \<mapsto> JStr ''x'', ''b'' \<mapsto> JStr ''y'']]
   \<and> example_store ''tg_resource'' = None
   \<and> fst (get_tg_resource_config example_store) = JObj Map.empty
   \<and> snd (get_tg_resource_config example_tg_store) = example_tg_store"
proof -
  have present: "example_tg_store ''tg_resource'' =
     Some (JObj [''telegram'' \<mapsto>
             JObj [''baseUrl'' \<mapsto> JStr ''https://t.me/s'',
                   ''channels'' \<mapsto>
                     JList [JObj [''id'' \<mapsto> JStr ''x'', ''name'' \<mapsto> JStr ''X'']]],
           ''cloudPatterns'' \<mapsto> JObj [''a'' \<mapsto> JStr ''x'', ''b'' \<mapsto> JStr ''y'']])"
    by (simp add: example_tg_store_def)
  have absent: "example_store ''tg_resource'' = None"
    by (simp add: example_store_def)
  from get_tg_resource_config_value [of example_tg_store]
    get_tg_resource_config_value [of example_store] present absent
  show ?thesis by simp
qed

subsection \<open>\<open>update_tg_resource_config\<close>: what a call computes\<close>

text \<open>
  The handler in closed form, by the value \<open>config.get("tg_resource", {})\<close>: for a
  dictionary, and for any other value.
\<close>

lemma update_tg_resource_config_dict:
  assumes "dict_get C ''tg_resource'' (JObj Map.empty) = JObj tg"
  shows "update_tg_resource_config channels patterns C =
     (case channels of
        None \<Rightarrow> Inr (C(''tg_resource'' \<mapsto> JObj (with_patterns patterns tg)))
      | Some chs \<Rightarrow>
          (case tg ''telegram'' of
             None \<Rightarrow> Inl KeyError
           | Some (JObj telegram) \<Rightarrow>
               Inr (C(''tg_resource'' \<mapsto>
                      JObj (with_patterns patterns
                        (tg(''telegram'' \<mapsto>
                           JObj (telegram(''channels'' \<mapsto> JList (map channel_dict chs))))))))
           | Some _ \<Rightarrow> Inl TypeError))"
  using assms
  by (simp add: update_tg_resource_config_def get_config_def set_channels_def getitem_def
      setitem_def update_config_def with_patterns_def
      split: option.split json.split)

lemma update_tg_resource_config_not_dict:
  assumes "\<forall>tg. dict_get C ''tg_resource'' (JObj Map.empty) \<noteq> JObj tg"
  shows "update_tg_resource_config channels patterns C =
     (if channels = None \<and> patterns = None
      then Inr (C(''tg_resource'' \<mapsto> dict_get C ''tg_resource'' (JObj Map.empty)))
      else Inl TypeError)"
  using assms
  by (cases "dict_get C ''tg_resource'' (JObj Map.empty)"; cases channels; cases patterns)
    (simp_all add: update_tg_resource_config_def get_config_def set_channels_def getitem_def
      setitem_def update_config_def Let_def)

lemma tg_config_cases:
  obtains (absent) "C ''tg_resource'' = None"
      "dict_get C ''tg_resource'' (JObj Map.empty) = JObj Map.empty"
  | (dict) tg where "C ''tg_resource'' = Some (JObj tg)"
      "dict_get C ''tg_resource'' (JObj Map.empty) = JObj tg"
  | (other) v where "C ''tg_resource'' = Some v" "\<forall>tg. v \<noteq> JObj tg"
      "dict_get C ''tg_resource'' (JObj Map.empty) = v"
proof (cases "C ''tg_resource''")
  case None
  then show ?thesis by (simp add: absent dict_get_def)
next
  case (Some v)
  then show ?thesis by (cases v) (simp_all add: dict other dict_get_def)
qed

lemma example_tg_store_sections:
  "example_tg_store ''tg_resource'' =
     Some (JObj [''telegram'' \<mapsto>
             JObj [''baseUrl'' \<mapsto> JStr ''https://t.me/s'',
                   ''channels'' \<mapsto>
                     JList [JObj [''id'' \<mapsto> JStr ''x'', ''name'' \<mapsto> JStr ''X'']]],
           ''cloudPatterns'' \<mapsto> JObj [''a'' \<mapsto> JStr ''x'', ''b'' \<mapsto> JStr ''y'']])"
  "tg_section example_tg_store ''telegram'' =
     Some (JObj [''baseUrl'' \<mapsto> JStr ''https://t.me/s'',
                 ''channels'' \<mapsto>
                   JList [JObj [''id'' \<mapsto> JStr ''x'', ''name'' \<mapsto> JStr ''X'']]])"
  "tg_section example_tg_store ''cloudPatterns'' =
     Some (JObj [''a'' \<mapsto> JStr ''x'', ''b'' \<mapsto> JStr ''y''])"
  "telegram_object example_tg_store =
     Some [''baseUrl'' \<mapsto> JStr ''https://t.me/s'',
           ''channels'' \<mapsto> JList [JObj [''id'' \<mapsto> JStr ''x'', ''name'' \<mapsto> JStr ''X'']]]"
  "tg_resource_is_dict example_tg_store"
  "tg_resource_typed example_tg_store"
  by (simp_all add: example_tg_store_def tg_section_def telegram_object_def
      tg_resource_is_dict_def tg_resource_typed_def)

subsection \<open>\<open>update_tg_resource_config\<close>: the missing-key error\<close>

text \<open>
  Claim C2, amended. \<open>update_tg_resource_config\<close> raises \<open>KeyError\<close> exactly when it
  is called with channels while the key \<open>telegram\<close> is missing: \<open>tg_resource\<close> is
  absent, or is a dictionary without that key. The exception is the handler's result,
  nothing catches it. With a dictionary at \<open>tg_resource.telegram\<close>, or without
  channels, there is no such error. Where \<open>tg_resource\<close> or \<open>telegram\<close> is present
  but is not a dictionary, a call with channels raises \<open>TypeError\<close> instead. On a store
  of the data model's shape the key is missing exactly when there is no dictionary at
  \<open>tg_resource.telegram\<close>.
\<close>

theorem update_tg_resource_config_key_error:
  "((update_tg_resource_config channels patterns C = Inl KeyError)
      = (channels \<noteq> None \<and> telegram_missing C))
   \<and> (telegram_object C \<noteq> None \<or> channels = None \<longrightarrow>
        update_tg_resource_config channels patterns C \<noteq> Inl KeyError)
   \<and> (channels \<noteq> None \<and> telegram_object C = None \<and> \<not> telegram_missing C \<longrightarrow>
        update_tg_resource_config channels patterns C = Inl TypeError)
   \<and> (tg_resource_typed C \<longrightarrow> telegram_missing C = (telegram_object C = None))"
proof (cases C rule: tg_config_cases)
  case absent
  show ?thesis
    unfolding update_tg_resource_config_dict [OF absent(2)]
    using absent(1)
    by (auto simp add: telegram_object_def tg_section_def tg_resource_typed_def
        telegram_missing_def split: option.splits json.splits)
next
  case (dict tg)
  show ?thesis
    unfolding update_tg_resource_config_dict [OF dict(2)]
    using dict(1)
    by (auto simp add: telegram_object_def tg_section_def tg_resource_typed_def
        telegram_missing_def split: option.splits json.splits)
next
  case (other v)
  from other(2,3) have "\<forall>tg. dict_get C ''tg_resource'' (JObj Map.empty) \<noteq> JObj tg"
    by simp
  from update_tg_resource_config_not_dict [OF this] other(1,2)
  show ?thesis
    by (cases v) (auto simp add: tg_resource_typed_def tg_resource_is_dict_def
        telegram_missing_def telegram_object_def tg_section_def)
qed

theorem update_tg_resource_config_key_error_witness:
  "telegram_missing example_store
   \<and> update_tg_resource_config (Some example_channels) None example_store = Inl KeyError
   \<and> telegram_missing example_tg_no_telegram
   \<and> update_tg_resource_config (Some example_channels) (Some example_patterns)
        example_tg_no_telegram = Inl KeyError
   \<and> update_tg_resource_config None (Some example_patterns) example_tg_no_telegram
        \<noteq> Inl KeyError
   \<and> telegram_object example_tg_store \<noteq> None
   \<and> update_tg_resource_config (Some example_channels) None example_tg_store \<noteq> Inl KeyError
   \<and> telegram_object example_tg_null_telegram = None
   \<and> \<not> telegram_missing example_tg_null_telegram
   \<and> update_tg_resource_config (Some example_channels) None example_tg_null_telegram
        = Inl TypeError
   \<and> tg_resource_typed example_tg_store
   \<and> telegram_missing example_tg_store = (telegram_object example_tg_store = None)"
proof -
  have a: "telegram_missing example_store"
    by (simp add: example_store_def telegram_missing_def)
  have b: "telegram_missing example_tg_no_telegram"
    by (simp add: example_tg_no_telegram_def telegram_missing_def)
  have c: "telegram_object example_tg_store \<noteq> None"
    by (simp add: example_tg_store_sections)
  have d: "telegram_object example_tg_null_telegram = None"
    "\<not> telegram_missing example_tg_null_telegram"
    by (simp_all add: example_tg_null_telegram_def telegram_object_def tg_section_def
        telegram_missing_def)
  have e: "tg_resource_typed example_tg_store"
    by (fact example_tg_store_sections(6))
  have r1: "update_tg_resource_config (Some example_channels) None example_store = Inl KeyError"
    using update_tg_resource_config_key_error [of "Some example_channels" None example_store] a
    by simp
  have r2: "update_tg_resource_config (Some example_channels) (Some example_patterns)
        example_tg_no_telegram = Inl KeyError"
    using update_tg_resource_config_key_error
      [of "Some example_channels" "Some example_patterns" example_tg_no_telegram] b
    by simp
  have r3: "update_tg_resource_config None (Some example_patterns) example_tg_no_telegram
        \<noteq> Inl KeyError"
    using update_tg_resource_config_key_error
      [of None "Some example_patterns" example_tg_no_telegram]
    by simp
  have r4: "update_tg_resource_config (Some example_channels) None example_tg_store
        \<noteq> Inl KeyError"
    using update_tg_resource_config_key_error
      [of "Some example_channels" None example_tg_store] c
    by blast
  have r5: "update_tg_resource_config (Some example_channels) None example_tg_null_telegram
        = Inl TypeError"
    using update_tg_resource_config_key_error
      [of "Some example_channels" None example_tg_null_telegram] d
    by simp
  have r6: "telegram_missing example_tg_store = (telegram_object example_tg_store = None)"
    using update_tg_resource_config_key_error [of None None example_tg_store] e
    by blast
  from a b c d e r1 r2 r3 r4 r5 r6 show ?thesis
    by (intro conjI)
qed

text \<open>
  The claim as it was stated, with "does not exist as an object" as the condition, fails
  on a store whose \<open>tg_resource.telegram\<close> is null: no dictionary is there, the call
  has channels, and the exception is \<open>TypeError\<close>, not \<open>KeyError\<close>.
\<close>

theorem update_tg_resource_config_key_error_counterexample:
  "telegram_object example_tg_null_telegram = None
   \<and> update_tg_resource_config (Some example_channels) None example_tg_null_telegram
       = Inl TypeError
   \<and> update_tg_resource_config (Some example_channels) None example_tg_null_telegram
       \<noteq> Inl KeyError"
proof -
  have "dict_get example_tg_null_telegram ''tg_resource'' (JObj Map.empty)
      = JObj [''telegram'' \<mapsto> JNull]"
    by (simp add: example_tg_null_telegram_def dict_get_def)
  from update_tg_resource_config_dict [OF this, of "Some example_channels" None]
  have "update_tg_resource_config (Some example_channels) None example_tg_null_telegram
       = Inl TypeError"
    by simp
  moreover have "telegram_object example_tg_null_telegram = None"
    by (simp add: telegram_object_def tg_section_def example_tg_null_telegram_def)
  ultimately show ?thesis
    by simp
qed

subsection \<open>\<open>update_tg_resource_config\<close>: patterns and channels are replaced\<close>



text \<open>
  Claim C6. On a store where \<open>tg_resource.telegram\<close> is a dictionary,
  \<open>update_tg_resource_config\<close> called with a channel list returns, and
  \<open>tg_resource.telegram\<close> afterwards is the dictionary it was with the key
  \<open>channels\<close> set to the given list, in the given order, each entry as its plain
  \<open>{id, name}\<close> dictionary: the old list is replaced, and every other key of
  \<open>telegram\<close> is carried over.
\<close>

theorem update_tg_resource_config_channels_replace:
  "telegram_object C = Some telegram \<longrightarrow>
     (\<exists>C'. update_tg_resource_config (Some channels) patterns C = Inr C'
        \<and> telegram_object C' =
            Some (telegram(''channels'' \<mapsto>
              JList (map (\<lambda>c. JObj [''id'' \<mapsto> JStr (id' c), ''name'' \<mapsto> JStr (name c)])
                      channels))))"
proof
  assume "telegram_object C = Some telegram"
  then obtain tg where tg: "C ''tg_resource'' = Some (JObj tg)"
    and telegram: "tg ''telegram'' = Some (JObj telegram)"
    by (auto simp add: telegram_object_def tg_section_def split: option.splits json.splits)
  from tg have "dict_get C ''tg_resource'' (JObj Map.empty) = JObj tg"
    by (simp add: dict_get_def)
  moreover have "channel_dict =
      (\<lambda>c. JObj [''id'' \<mapsto> JStr (id' c), ''name'' \<mapsto> JStr (name c)])"
    by (rule ext) (simp add: channel_dict_def)
  ultimately show "\<exists>C'. update_tg_resource_config (Some channels) patterns C = Inr C'
        \<and> telegram_object C' =
            Some (telegram(''channels'' \<mapsto>
              JList (map (\<lambda>c. JObj [''id'' \<mapsto> JStr (id' c), ''name'' \<mapsto> JStr (name c)])
                      channels)))"
    using update_tg_resource_config_dict [of C tg "Some channels" patterns] telegram
    by (cases patterns) (simp_all add: telegram_object_def tg_section_def with_patterns_def)
qed

theorem update_tg_resource_config_channels_replace_witness:
  "telegram_object example_tg_store =
     Some [''baseUrl'' \<mapsto> JStr ''https://t.me/s'',
           ''channels'' \<mapsto> JList [JObj [''id'' \<mapsto> JStr ''x'', ''name'' \<mapsto> JStr ''X'']]]
   \<and> (\<exists>C'. update_tg_resource_config (Some example_channels) None example_tg_store = Inr C'
         \<and> telegram_object C' =
             Some [''baseUrl'' \<mapsto> JStr ''https://t.me/s'',
                   ''channels'' \<mapsto>
                     JList [JObj [''id'' \<mapsto> JStr ''y'', ''name'' \<mapsto> JStr ''Y'']]])"
proof -
  let ?telegram = "[''baseUrl'' \<mapsto> JStr ''https://t.me/s'',
      ''channels'' \<mapsto> JList [JObj [''id'' \<mapsto> JStr ''x'', ''name'' \<mapsto> JStr ''X'']]]"
  have before: "telegram_object example_tg_store = Some ?telegram"
    by (fact example_tg_store_sections(4))
  from update_tg_resource_config_channels_replace
    [of example_tg_store ?telegram example_channels None] before
  have "\<exists>C'. update_tg_resource_config (Some example_channels) None example_tg_store = Inr C'
        \<and> telegram_object C' =
            Some (?telegram(''channels'' \<mapsto>
              JList (map (\<lambda>c. JObj [''id'' \<mapsto> JStr (id' c), ''name'' \<mapsto> JStr (name c)])
                      example_channels)))"
    by (rule mp)
  with before show ?thesis
    by (simp add: example_channels_def)
qed

subsection \<open>\<open>update_tg_resource_config\<close>: what a call leaves alone, and what it writes\<close>

text \<open>
  Claim C7. Each optional argument of \<open>update_tg_resource_config\<close> acts on its own
  sub-section only. Without channels, \<open>tg_resource.telegram\<close> after the call is what it
  was; without patterns, \<open>tg_resource.cloudPatterns\<close> is what it was; the other keys of
  \<open>tg_resource\<close> and all other top-level keys of the store are never changed.
\<close>

theorem update_tg_resource_config_frame:
  "(let C' = store_after C (update_tg_resource_config channels patterns C) in
      (channels = None \<longrightarrow> tg_section C' ''telegram'' = tg_section C ''telegram'')
    \<and> (patterns = None \<longrightarrow> tg_section C' ''cloudPatterns'' = tg_section C ''cloudPatterns'')
    \<and> (\<forall>k. k \<noteq> ''telegram'' \<and> k \<noteq> ''cloudPatterns'' \<longrightarrow> tg_section C' k = tg_section C k)
    \<and> (\<forall>k. k \<noteq> ''tg_resource'' \<longrightarrow> C' k = C k))"
proof (cases C rule: tg_config_cases)
  case absent
  show ?thesis
    unfolding update_tg_resource_config_dict [OF absent(2)]
    using absent(1)
    by (auto simp add: Let_def store_after_def tg_section_def with_patterns_def
        split: option.splits json.splits)
next
  case (dict tg)
  show ?thesis
    unfolding update_tg_resource_config_dict [OF dict(2)]
    using dict(1)
    by (auto simp add: Let_def store_after_def tg_section_def with_patterns_def
        split: option.splits json.splits)
next
  case (other v)
  from other(2,3) have "\<forall>tg. dict_get C ''tg_resource'' (JObj Map.empty) \<noteq> JObj tg"
    by simp
  from update_tg_resource_config_not_dict [OF this] other(1,3)
  show ?thesis
    by (auto simp add: Let_def store_after_def tg_section_def)
qed

theorem update_tg_resource_config_frame_witness:
  "tg_section (store_after example_tg_store
       (update_tg_resource_config None (Some example_patterns) example_tg_store)) ''telegram''
     = Some (JObj [''baseUrl'' \<mapsto> JStr ''https://t.me/s'',
                   ''channels'' \<mapsto>
                     JList [JObj [''id'' \<mapsto> JStr ''x'', ''name'' \<mapsto> JStr ''X'']]])
   \<and> tg_section (store_after example_tg_store
       (update_tg_resource_config (Some example_channels) None example_tg_store))
         ''cloudPatterns''
     = Some (JObj [''a'' \<mapsto> JStr ''x'', ''b'' \<mapsto> JStr ''y''])
   \<and> store_after example_tg_store
       (update_tg_resource_config (Some example_channels) (Some example_patterns)
          example_tg_store) ''emby_url''
     = Some (JStr ''a'')"
proof -
  have emby: "example_tg_store ''emby_url'' = Some (JStr ''a'')"
    by (simp add: example_tg_store_def)
  from update_tg_resource_config_frame [of example_tg_store None "Some example_patterns"]
    update_tg_resource_config_frame [of example_tg_store "Some example_channels" None]
    update_tg_resource_config_frame
      [of example_tg_store "Some example_channels" "Some example_patterns"]
    emby
  show ?thesis
    by (simp add: Let_def example_tg_store_sections)
qed



end
